theory Spec2Isabelle
  imports Main "HOL-Library.Multiset"
begin

section \<open>The page state\<close>

text \<open>
  The repository holds several versions of the script. The model follows the one with
  the settings dialog and the message box (\<open>getFeeds\<close>, \<open>addFeed\<close>,
  \<open>removeFeed\<close>, \<open>loadFeed\<close>, \<open>loadAllFeeds\<close>, \<open>showMessage\<close>); the
  functions of two other versions that behave differently are modelled after it.

  Client-local storage holds text. The text under \<open>STORAGE_KEY\<close> is represented by
  what \<open>JSON.parse\<close> makes of it: text that does not parse (the empty string among
  them), or the serialisation of an array of strings, which is what \<open>saveFeeds\<close>
  writes. Parsable text of any other shape is outside this model.
\<close>

datatype js_error = PlainError | SyntaxError | TypeError | SecurityError | QuotaExceededError

datatype stored_text = Unparsable string | ArrayText "string list"

record local_storage =
  item :: "stored_text option"   \<comment> \<open>the value under \<open>STORAGE_KEY\<close>, \<open>None\<close> when absent\<close>
  read_denied :: bool            \<comment> \<open>\<open>getItem\<close> throws\<close>
  write_denied :: bool           \<comment> \<open>\<open>setItem\<close> throws\<close>

datatype msg_type = Success | Error | Warning

datatype list_view = NoFeedsAdded | Entries "string list"

record article =
  title :: string
  link :: string
  pubDate :: "int option"   \<comment> \<open>time value of \<open>new Date(item.pubDate)\<close>, \<open>None\<close> when it is NaN\<close>
  description :: "string option"
  content :: "string option"
  feedTitle :: "string option"   \<comment> \<open>\<open>None\<close> until \<open>loadFeed\<close> sets the property\<close>

text \<open>
  What the feed container holds: nothing, the placeholder of \<open>renderFeed\<close>
  (\<open>No articles found\<close>), the placeholder of the rewritten script
  (\<open>No content available\<close>), or a header naming feeds and one card per article.
\<close>

datatype container = Blank | NoArticles | NoContent | Cards "string list" "article list"

text \<open>
  \<open>DEFAULT_FEEDS\<close> is a \<open>const\<close> binding to an array object. \<open>getFeeds\<close> returns
  that very object when it falls back, and \<open>push\<close> and \<open>splice\<close> change an array in
  place, so the contents of the object are part of the state.
\<close>

record page =
  storage :: local_storage
  defaults :: "string list"      \<comment> \<open>contents of the \<open>DEFAULT_FEEDS\<close> array\<close>
  messageText :: string
  messageClass :: msg_type
  messageHidden :: bool
  feedContainer :: container
  loadingHidden :: bool
  dialogOpen :: bool
  feedsList :: list_view
  addFeedInput :: string

definition DEFAULT_FEEDS :: "string list" where
  "DEFAULT_FEEDS = [''https://www.theverge.com/rss/index.xml'', ''https://www.engadget.com/rss.xml'']"

text \<open>The page as the script finds it when it is loaded, over a given storage.\<close>

definition fresh_page :: "local_storage \<Rightarrow> page" where
  "fresh_page ls = \<lparr> storage = ls, defaults = DEFAULT_FEEDS, messageText = [],
     messageClass = Warning, messageHidden = True, feedContainer = Blank,
     loadingHidden = True, dialogOpen = False, feedsList = NoFeedsAdded,
     addFeedInput = [] \<rparr>"

section \<open>Reading and writing the feed list\<close>

definition getItem :: "local_storage \<Rightarrow> js_error + stored_text option" where
  "getItem ls = (if read_denied ls then Inl SecurityError else Inr (item ls))"

definition JSON_parse :: "stored_text \<Rightarrow> js_error + string list" where
  "JSON_parse t = (case t of Unparsable s \<Rightarrow> Inl SyntaxError | ArrayText xs \<Rightarrow> Inr xs)"

definition truthy_text :: "stored_text \<Rightarrow> bool" where
  "truthy_text t = (case t of Unparsable s \<Rightarrow> s \<noteq> [] | ArrayText xs \<Rightarrow> True)"

text \<open>An array value is a reference: the shared defaults object or a freshly parsed array.\<close>

datatype feeds_ref = DefaultsRef | FreshArray "string list"

definition elems :: "page \<Rightarrow> feeds_ref \<Rightarrow> string list" where
  "elems st r = (case r of DefaultsRef \<Rightarrow> defaults st | FreshArray xs \<Rightarrow> xs)"

text \<open>In-place update of the array behind a reference.\<close>

definition assign :: "feeds_ref \<Rightarrow> string list \<Rightarrow> page \<Rightarrow> feeds_ref \<times> page" where
  "assign r xs st = (case r of DefaultsRef \<Rightarrow> (DefaultsRef, st\<lparr>defaults := xs\<rparr>)
                              | FreshArray ys \<Rightarrow> (FreshArray xs, st))"

definition getFeeds :: "page \<Rightarrow> feeds_ref" where
  "getFeeds st =
     (case getItem (storage st) of
        Inl e \<Rightarrow> DefaultsRef
      | Inr None \<Rightarrow> DefaultsRef
      | Inr (Some stored) \<Rightarrow>
          if truthy_text stored
          then (case JSON_parse stored of Inl e \<Rightarrow> DefaultsRef | Inr xs \<Rightarrow> FreshArray xs)
          else DefaultsRef)"

definition setItem :: "stored_text \<Rightarrow> local_storage \<Rightarrow> js_error + local_storage" where
  "setItem t ls = (if write_denied ls then Inl QuotaExceededError else Inr (ls\<lparr>item := Some t\<rparr>))"

definition saveFeeds :: "string list \<Rightarrow> page \<Rightarrow> page" where
  "saveFeeds feeds st =
     (case setItem (ArrayText feeds) (storage st) of
        Inl e \<Rightarrow> st
      | Inr ls \<Rightarrow> st\<lparr>storage := ls\<rparr>)"

definition showMessage :: "string \<Rightarrow> msg_type \<Rightarrow> page \<Rightarrow> page" where
  "showMessage message type st =
     st\<lparr>messageText := message, messageClass := type, messageHidden := False\<rparr>"

definition urlDisplay :: "string \<Rightarrow> string" where
  "urlDisplay url = (if length url > 50 then take 47 url @ ''...'' else url)"

definition renderFeedsList :: "page \<Rightarrow> page" where
  "renderFeedsList st =
     (let currentFeeds = elems st (getFeeds st) in
      if length currentFeeds = 0 then st\<lparr>feedsList := NoFeedsAdded\<rparr>
      else st\<lparr>feedsList := Entries (map urlDisplay currentFeeds)\<rparr>)"

section \<open>Adding and removing feeds\<close>

text \<open>
  A string of the model is the UTF-8 encoding of the script's string. \<open>trim\<close> removes
  the white space and line terminators of the language at both ends: tab, line feed,
  vertical tab, form feed, carriage return, space, U+00A0, U+1680, U+2000 to U+200A,
  U+2028, U+2029, U+202F, U+205F, U+3000 and U+FEFF.
\<close>

definition white_space :: "string list" where
  "white_space =
     [[CHR 0x09], [CHR 0x0A], [CHR 0x0B], [CHR 0x0C], [CHR 0x0D], [CHR 0x20],
      [CHR 0xC2, CHR 0xA0], [CHR 0xE1, CHR 0x9A, CHR 0x80],
      [CHR 0xE2, CHR 0x80, CHR 0x80], [CHR 0xE2, CHR 0x80, CHR 0x81],
      [CHR 0xE2, CHR 0x80, CHR 0x82], [CHR 0xE2, CHR 0x80, CHR 0x83],
      [CHR 0xE2, CHR 0x80, CHR 0x84], [CHR 0xE2, CHR 0x80, CHR 0x85],
      [CHR 0xE2, CHR 0x80, CHR 0x86], [CHR 0xE2, CHR 0x80, CHR 0x87],
      [CHR 0xE2, CHR 0x80, CHR 0x88], [CHR 0xE2, CHR 0x80, CHR 0x89],
      [CHR 0xE2, CHR 0x80, CHR 0x8A], [CHR 0xE2, CHR 0x80, CHR 0xA8],
      [CHR 0xE2, CHR 0x80, CHR 0xA9], [CHR 0xE2, CHR 0x80, CHR 0xAF],
      [CHR 0xE2, CHR 0x81, CHR 0x9F], [CHR 0xE3, CHR 0x80, CHR 0x80],
      [CHR 0xEF, CHR 0xBB, CHR 0xBF]]"

text \<open>Removing, as long as there is one, a leading sequence that is in the list.\<close>

function strip :: "string list \<Rightarrow> string \<Rightarrow> string" where
  "strip ws s =
     (case List.find (\<lambda>w. w \<noteq> [] \<and> take (length w) s = w) ws of
        None \<Rightarrow> s
      | Some w \<Rightarrow> strip ws (drop (length w) s))"
  by pat_completeness auto

termination
proof (relation "measure (\<lambda>(ws, s). length s)")
  show "wf (measure (\<lambda>(ws, s). length s))" by simp
next
  fix ws :: "string list" and s w :: string
  assume "List.find (\<lambda>w. w \<noteq> [] \<and> take (length w) s = w) ws = Some w"
  then have nonempty: "w \<noteq> []" and starts: "take (length w) s = w"
    by (auto simp: find_Some_iff)
  from nonempty have "0 < length w" by simp
  moreover from starts have "length (take (length w) s) = length w" by simp
  then have "length w \<le> length s" by simp
  ultimately have "length s - length w < length s" by arith
  then show "((ws, drop (length w) s), (ws, s)) \<in> measure (\<lambda>(ws, s). length s)"
    by simp
qed

declare strip.simps [simp del]

definition trim :: "string \<Rightarrow> string" where
  "trim s = rev (strip (map rev white_space) (rev (strip white_space s)))"

text \<open>
  A function that can throw returns the exception, if any, next to the state reached
  when it was thrown.
\<close>

definition addFeed :: "page \<Rightarrow> js_error option \<times> page" where
  "addFeed st =
     (let url = trim (addFeedInput st) in
      if url = [] then (None, showMessage ''Feed URL cannot be empty.'' Warning st)
      else
        let currentFeeds = getFeeds st in
        if url \<in> set (elems st currentFeeds)
        then (None, (showMessage ''Feed URL already exists.'' Warning st)\<lparr>addFeedInput := []\<rparr>)
        else
          let (currentFeeds, st) = assign currentFeeds (elems st currentFeeds @ [url]) st;
              st = saveFeeds (elems st currentFeeds) st;
              st = renderFeedsList st;
              st = st\<lparr>addFeedInput := []\<rparr>
          in (None, showMessage (''Feed added: '' @ take 30 url @ ''...'') Success st))"

text \<open>\<open>currentFeeds[index]\<close> for an integer index: \<open>undefined\<close> outside the array.\<close>

definition at_index :: "string list \<Rightarrow> int \<Rightarrow> string option" where
  "at_index xs i = (if 0 \<le> i \<and> i < int (length xs) then Some (xs ! nat i) else None)"

text \<open>\<open>splice(index, 1)\<close>: a negative start counts from the end, a start beyond the end
  is the end, and at most one element is removed.\<close>

definition splice1 :: "string list \<Rightarrow> int \<Rightarrow> string list" where
  "splice1 xs i =
     (let len = int (length xs);
          start = (if i < 0 then max (len + i) 0 else min i len);
          deleteCount = min 1 (len - start)
      in take (nat start) xs @ drop (nat (start + deleteCount)) xs)"

definition removeFeed :: "int \<Rightarrow> page \<Rightarrow> js_error option \<times> page" where
  "removeFeed index st =
     (let currentFeeds = getFeeds st;
          urlToRemove = at_index (elems st currentFeeds) index;
          (currentFeeds, st) = assign currentFeeds (splice1 (elems st currentFeeds) index) st;
          st = saveFeeds (elems st currentFeeds) st;
          st = renderFeedsList st
      in case urlToRemove of
           None \<Rightarrow> (Some TypeError, st)
         | Some u \<Rightarrow> (None, showMessage (''Feed removed: '' @ take 30 u @ ''...'') Success st))"

section \<open>Fetching one feed\<close>

text \<open>
  The proxy's reply, as the script reads it: a JSON object whose properties may be
  missing. \<open>items\<close> is \<open>None\<close> when the property is missing or falsy; an array,
  even an empty one, is truthy, and its elements are objects. Every call of \<open>fetch\<close>
  is taken to settle.
\<close>

record feed_meta =
  feed_name :: "string option"   \<comment> \<open>\<open>data.feed.title\<close>\<close>
  feed_link :: "string option"

record payload =
  status :: "string option"
  message :: "string option"
  feed :: "feed_meta option"
  items :: "article list option"

record response =
  status_code :: nat
  body :: "payload option"       \<comment> \<open>\<open>None\<close> when \<open>response.json()\<close> rejects\<close>

definition response_ok :: "response \<Rightarrow> bool" where
  "response_ok r = (200 \<le> status_code r \<and> status_code r \<le> 299)"

text \<open>
  The \<open>data\<close> object that \<open>loadFeed\<close> returns on success: its \<open>feed\<close> and
  \<open>items\<close> are there, or the attempt would have thrown.
\<close>

record loaded =
  source :: feed_meta
  articles :: "article list"

text \<open>What one pass through the body of the \<open>try\<close> block does.\<close>

datatype attempt_result = Returned loaded | Threw | FellThrough

definition stamp :: "string \<Rightarrow> article \<Rightarrow> article" where
  "stamp t a = a\<lparr>feedTitle := Some t\<rparr>"

text \<open>
  \<open>hostname\<close> stands for \<open>new URL(rssUrl).hostname\<close>, \<open>None\<close> where the constructor
  throws. A fetch result of \<open>None\<close> is a rejected \<open>fetch\<close>.
\<close>

definition try_block :: "(string \<Rightarrow> string option) \<Rightarrow> string \<Rightarrow> response option \<Rightarrow> attempt_result" where
  "try_block hostname rssUrl fetched =
     (case fetched of
        None \<Rightarrow> Threw
      | Some resp \<Rightarrow>
          if \<not> response_ok resp then Threw
          else (case body resp of
                  None \<Rightarrow> Threw
                | Some data \<Rightarrow>
                    (case (status data = Some ''ok'', items data) of
                       (True, Some its) \<Rightarrow>
                         (case feed data of
                            None \<Rightarrow> Threw
                          | Some f \<Rightarrow>
                              (case (case feed_name f of
                                       None \<Rightarrow> hostname rssUrl
                                     | Some t \<Rightarrow> if t = [] then hostname rssUrl else Some t) of
                                 None \<Rightarrow> Threw
                               | Some resolved \<Rightarrow>
                                   Returned \<lparr>source = f, articles = map (stamp resolved) its\<rparr>))
                     | _ \<Rightarrow> if status data = Some ''error'' then Threw else FellThrough)))"

definition MAX_RETRIES :: nat where
  "MAX_RETRIES = 3"

text \<open>
  What can be observed of a run of \<open>loadFeed\<close>: each call of \<open>fetch\<close>, each
  \<open>Fetch attempt n failed\<close> line on the console, and each timer wait in milliseconds.
\<close>

datatype event = Fetched | Failed nat | Waited nat

text \<open>
  The \<open>while\<close> loop. \<open>attempt\<close> is the loop's counter, \<open>calls\<close> the number of
  \<open>fetch\<close> calls made so far; \<open>net k\<close> is what the \<open>k\<close>-th call of this task
  settles to. The loop need not end, so the result is an option: \<open>None\<close> is a run that
  never returns. The events of a pass come before those of the rest of the run.
\<close>

partial_function (option) retry_loop ::
  "(string \<Rightarrow> string option) \<Rightarrow> (nat \<Rightarrow> response option) \<Rightarrow> string \<Rightarrow> nat \<Rightarrow> nat
     \<Rightarrow> (loaded option \<times> event list) option" where
  "retry_loop hostname net rssUrl attempt calls =
     (if attempt < MAX_RETRIES then
        (case try_block hostname rssUrl (net calls) of
           Returned data \<Rightarrow> Some (Some data, [Fetched])
         | Threw \<Rightarrow>
             (if attempt + 1 \<ge> MAX_RETRIES then Some (None, [Fetched, Failed (attempt + 1)])
              else Option.bind (retry_loop hostname net rssUrl (attempt + 1) (calls + 1))
                     (\<lambda>r. Some (fst r,
                        Fetched # Failed (attempt + 1) # Waited (2 ^ (attempt + 1) * 1000) # snd r)))
         | FellThrough \<Rightarrow>
             Option.bind (retry_loop hostname net rssUrl attempt (calls + 1))
               (\<lambda>r. Some (fst r, Fetched # snd r)))
      else Some (None, []))"

text \<open>
  A URL is a string that \<open>encodeURIComponent\<close> accepts, so building \<open>proxyUrl\<close>
  does not throw.
\<close>

definition loadFeed ::
  "(string \<Rightarrow> string option) \<Rightarrow> (nat \<Rightarrow> response option) \<Rightarrow> string
     \<Rightarrow> (loaded option \<times> event list) option" where
  "loadFeed hostname net rssUrl =
     (if rssUrl = [] then Some (None, []) else retry_loop hostname net rssUrl 0 0)"

section \<open>Sorting\<close>

text \<open>
  \<open>Array.prototype.sort\<close> with a comparison function. The language fixes the result
  only for a consistent comparison function: the stable sorted arrangement. For any
  other one the order is left to the engine. The model is a stable insertion sort; a
  comparison that yields NaN counts as zero, as the language prescribes. Where every
  date parses the model gives the order of every engine; where one does not, it gives an
  order that an engine may produce, and engines differ. A number is an
  \<open>int option\<close>, \<open>None\<close> being NaN.
\<close>

definition sortCompare :: "('a \<Rightarrow> 'a \<Rightarrow> int option) \<Rightarrow> 'a \<Rightarrow> 'a \<Rightarrow> int" where
  "sortCompare comparefn x y = (case comparefn x y of None \<Rightarrow> 0 | Some v \<Rightarrow> v)"

fun insert_sorted :: "('a \<Rightarrow> 'a \<Rightarrow> int option) \<Rightarrow> 'a \<Rightarrow> 'a list \<Rightarrow> 'a list" where
  "insert_sorted comparefn x [] = [x]"
| "insert_sorted comparefn x (y # ys) =
     (if sortCompare comparefn x y \<le> 0 then x # y # ys
      else y # insert_sorted comparefn x ys)"

definition array_sort :: "('a \<Rightarrow> 'a \<Rightarrow> int option) \<Rightarrow> 'a list \<Rightarrow> 'a list" where
  "array_sort comparefn xs = foldr (insert_sorted comparefn) xs []"

text \<open>The comparison function of \<open>loadAllFeeds\<close>: \<open>new Date(b.pubDate) - new Date(a.pubDate)\<close>.\<close>

definition compareFn :: "article \<Rightarrow> article \<Rightarrow> int option" where
  "compareFn a b =
     (case (pubDate b, pubDate a) of (Some tb, Some ta) \<Rightarrow> Some (tb - ta) | _ \<Rightarrow> None)"

section \<open>Loading all feeds\<close>

definition displayTitle :: "feed_meta \<Rightarrow> string" where
  "displayTitle f = (case feed_name f of None \<Rightarrow> ''Unknown Feed''
                     | Some t \<Rightarrow> if t = [] then ''Unknown Feed'' else t)"

definition renderFeed :: "article list \<Rightarrow> feed_meta list \<Rightarrow> page \<Rightarrow> page" where
  "renderFeed its feedSources st =
     (if length its = 0 then st\<lparr>feedContainer := NoArticles\<rparr>
      else st\<lparr>feedContainer := Cards (map displayTitle feedSources) its\<rparr>)"

text \<open>The articles a container shows, in order.\<close>

definition rendered :: "container \<Rightarrow> article list" where
  "rendered c = (case c of Cards titles its \<Rightarrow> its | _ \<Rightarrow> [])"

fun show_nat :: "nat \<Rightarrow> string" where
  "show_nat n = (if n < 10 then [''0123456789'' ! n]
                 else show_nat (n div 10) @ [''0123456789'' ! (n mod 10)])"

declare show_nat.simps [simp del]

text \<open>
  \<open>Promise.all\<close> over tasks that never reject: it settles once every task has
  settled, and never if one of them never does.
\<close>

primrec awaitAll :: "'a option list \<Rightarrow> 'a list option" where
  "awaitAll [] = Some []"
| "awaitAll (p # ps) =
     (case p of None \<Rightarrow> None
      | Some r \<Rightarrow> (case awaitAll ps of None \<Rightarrow> None | Some rs \<Rightarrow> Some (r # rs)))"

text \<open>
  \<open>feedUrls.map(url => loadFeed(url))\<close>: one task per URL, all started together.
  \<open>net i\<close> gives the fetch results of the task started for the \<open>i\<close>-th URL.
\<close>

definition fetchPromises ::
  "(string \<Rightarrow> string option) \<Rightarrow> (nat \<Rightarrow> nat \<Rightarrow> response option) \<Rightarrow> string list
     \<Rightarrow> (loaded option \<times> event list) option list" where
  "fetchPromises hostname net feedUrls =
     map (\<lambda>(i, url). loadFeed hostname (net i) url) (List.enumerate 0 feedUrls)"

text \<open>
  The result is the page after the run and the events of each task, in the order of the
  URLs; \<open>None\<close> is a run whose \<open>await\<close> never resumes.
\<close>

definition loadAllFeeds ::
  "(string \<Rightarrow> string option) \<Rightarrow> (nat \<Rightarrow> nat \<Rightarrow> response option) \<Rightarrow> page
     \<Rightarrow> (page \<times> event list list) option" where
  "loadAllFeeds hostname net st =
     (let feedUrls = elems st (getFeeds st) in
      if length feedUrls = 0
      then Some ((showMessage ''No feeds configured. Open Settings to add a URL.'' Warning st)
                   \<lparr>feedContainer := Blank\<rparr>, [])
      else
        let st = st\<lparr>dialogOpen := False, loadingHidden := False, feedContainer := Blank,
                    messageHidden := True\<rparr>
        in case awaitAll (fetchPromises hostname net feedUrls) of
             None \<Rightarrow> None
           | Some results \<Rightarrow>
               let successfulLoads = List.map_filter fst results;
                   allItems = concat (map articles successfulLoads);
                   successfulFeeds = map source successfulLoads;
                   allItems = array_sort compareFn allItems;
                   st = st\<lparr>loadingHidden := True\<rparr>
               in if length successfulLoads > 0
                  then Some (showMessage (''Successfully loaded '' @ show_nat (length successfulLoads)
                                @ '' feed(s) with '' @ show_nat (length allItems)
                                @ '' total articles.'') Success
                               (renderFeed allItems successfulFeeds st), map snd results)
                  else Some (showMessage
                               ''Failed to load any of the requested feeds after all retries. Open Settings to verify URLs.''
                               Error (renderFeed [] [] st), map snd results))"

section \<open>The rewritten script\<close>

text \<open>
  The repository also holds a shorter rewrite of the script, with other functions under
  the same names. Its \<open>getFeeds\<close> and \<open>saveFeeds\<close> have no \<open>try\<close>, its
  \<open>addFeed\<close> and \<open>loadAllFeeds\<close> call no \<open>showMessage\<close>, and its fetcher
  \<open>fetchFeedWithRetry(url, retries = 3, backoff = 1000)\<close> is a \<open>for\<close> loop that
  returns whatever body the proxy sent and rethrows the last error. They are modelled
  here on the same page state.
\<close>

datatype 'a completion = Value 'a | Thrown js_error

definition getFeeds_rewritten :: "page \<Rightarrow> feeds_ref completion" where
  "getFeeds_rewritten st =
     (case getItem (storage st) of
        Inl e \<Rightarrow> Thrown e
      | Inr None \<Rightarrow> Value DefaultsRef
      | Inr (Some stored) \<Rightarrow>
          if truthy_text stored
          then (case JSON_parse stored of Inl e \<Rightarrow> Thrown e | Inr xs \<Rightarrow> Value (FreshArray xs))
          else Value DefaultsRef)"

definition saveFeeds_rewritten :: "string list \<Rightarrow> page \<Rightarrow> js_error option \<times> page" where
  "saveFeeds_rewritten feeds st =
     (case setItem (ArrayText feeds) (storage st) of
        Inl e \<Rightarrow> (Some e, st)
      | Inr ls \<Rightarrow> (None, st\<lparr>storage := ls\<rparr>))"

definition renderFeedsList_rewritten :: "page \<Rightarrow> js_error option \<times> page" where
  "renderFeedsList_rewritten st =
     (case getFeeds_rewritten st of
        Thrown e \<Rightarrow> (Some e, st)
      | Value feeds \<Rightarrow> (None, st\<lparr>feedsList := Entries (elems st feeds)\<rparr>))"

definition addFeed_rewritten :: "page \<Rightarrow> js_error option \<times> page" where
  "addFeed_rewritten st =
     (let url = trim (addFeedInput st) in
      if url \<noteq> [] then
        (case getFeeds_rewritten st of
           Thrown e \<Rightarrow> (Some e, st)
         | Value feeds \<Rightarrow>
             if url \<notin> set (elems st feeds) then
               let (feeds, st) = assign feeds (elems st feeds @ [url]) st in
               (case saveFeeds_rewritten (elems st feeds) st of
                  (Some e, st) \<Rightarrow> (Some e, st)
                | (None, st) \<Rightarrow> renderFeedsList_rewritten (st\<lparr>addFeedInput := []\<rparr>))
             else (None, st))
      else (None, st))"

text \<open>
  The fetcher, called with the default \<open>retries\<close> and \<open>backoff\<close>. The URL only
  selects the address of the proxy; \<open>net i\<close> is what the \<open>i\<close>-th fetch settles to.
  A rejected \<open>fetch\<close> throws a \<open>TypeError\<close>, a non-success status the \<open>Error\<close>
  of the script, an unparsable body a \<open>SyntaxError\<close>.
\<close>

function fetchFeedWithRetry_from ::
  "(nat \<Rightarrow> response option) \<Rightarrow> nat \<Rightarrow> nat \<Rightarrow> nat \<Rightarrow> payload option completion \<times> event list" where
  "fetchFeedWithRetry_from net retries backoff i =
     (if i < retries then
        (case (case net i of
                 None \<Rightarrow> Inl TypeError
               | Some response \<Rightarrow>
                   if \<not> response_ok response then Inl PlainError
                   else (case body response of None \<Rightarrow> Inl SyntaxError | Some data \<Rightarrow> Inr data)) of
           Inr data \<Rightarrow> (Value (Some data), [Fetched])
         | Inl e \<Rightarrow>
             if i = retries - 1 then (Thrown e, [Fetched])
             else (case fetchFeedWithRetry_from net retries backoff (i + 1) of
                     (r, tr) \<Rightarrow> (r, Fetched # Waited (backoff * 2 ^ i) # tr)))
      else (Value None, []))"
  by pat_completeness auto

termination
  by (relation "measure (\<lambda>(net, retries, backoff, i). retries - i)") auto

declare fetchFeedWithRetry_from.simps [simp del]

definition fetchFeedWithRetry :: "(nat \<Rightarrow> response option) \<Rightarrow> payload option completion \<times> event list" where
  "fetchFeedWithRetry net = fetchFeedWithRetry_from net 3 1000 0"

text \<open>
  \<open>renderFeed\<close> of the rewrite draws one card per article and reads
  \<open>item.description.replace\<close> for each, which throws where the description is
  missing; the cards before that one are drawn already.
\<close>

definition renderFeed_rewritten :: "article list \<Rightarrow> page \<Rightarrow> js_error option \<times> page" where
  "renderFeed_rewritten its st =
     (if length its = 0 then (None, st\<lparr>feedContainer := NoContent\<rparr>)
      else
        let drawn = takeWhile (\<lambda>a. description a \<noteq> None) its in
        if length drawn = length its then (None, st\<lparr>feedContainer := Cards [] its\<rparr>)
        else (Some TypeError,
              st\<lparr>feedContainer := (if drawn = [] then Blank else Cards [] drawn)\<rparr>))"

text \<open>
  The body of the \<open>try\<close> in the loop of \<open>loadAllFeeds\<close>: the items are added
  when the status is \<open>ok\<close>; anything thrown is caught and the feed is skipped.
\<close>

definition collect :: "payload option completion \<Rightarrow> article list \<Rightarrow> article list" where
  "collect fetched allItems =
     (case fetched of
        Value (Some data) \<Rightarrow>
          if status data = Some ''ok''
          then (case items data of Some its \<Rightarrow> allItems @ its | None \<Rightarrow> allItems)
          else allItems
      | Value None \<Rightarrow> allItems
      | Thrown e \<Rightarrow> allItems)"

definition loadAllFeeds_rewritten ::
  "(nat \<Rightarrow> nat \<Rightarrow> response option) \<Rightarrow> page \<Rightarrow> js_error option \<times> page \<times> event list list" where
  "loadAllFeeds_rewritten net st =
     (case getFeeds_rewritten st of
        Thrown e \<Rightarrow> (Some e, st, [])
      | Value urls \<Rightarrow>
          let st = st\<lparr>loadingHidden := False, feedContainer := Blank\<rparr>;
              runs = map (\<lambda>(i, url). fetchFeedWithRetry (net i)) (List.enumerate 0 (elems st urls));
              allItems = foldl (\<lambda>allItems run. collect (fst run) allItems) [] runs;
              allItems = array_sort compareFn allItems;
              st = st\<lparr>loadingHidden := True\<rparr>
          in case renderFeed_rewritten allItems st of
               (thrown, st) \<Rightarrow> (thrown, st, map snd runs))"

section \<open>The earlier script\<close>

text \<open>
  An earlier version of the script takes the URLs from an input box and passes them to
  \<open>loadAllFeeds(feedUrls)\<close>. Its \<open>loadFeed\<close>, \<open>renderFeed\<close> and
  \<open>showMessage\<close> are the ones above. The state is the page and whether the load
  button is disabled.
\<close>

definition loadAllFeeds_earlier ::
  "(string \<Rightarrow> string option) \<Rightarrow> (nat \<Rightarrow> nat \<Rightarrow> response option) \<Rightarrow> string list
     \<Rightarrow> page \<times> bool \<Rightarrow> ((page \<times> bool) \<times> event list list) option" where
  "loadAllFeeds_earlier hostname net feedUrls s =
     (case s of (st, loadButtonDisabled) \<Rightarrow>
        if length feedUrls = 0
        then Some ((showMessage ''I need at least one valid URL, Jacob.'' Error st,
                    loadButtonDisabled), [])
        else
          let st = st\<lparr>loadingHidden := False, feedContainer := Blank, messageHidden := True\<rparr>
          in case awaitAll (fetchPromises hostname net feedUrls) of
               None \<Rightarrow> None
             | Some results \<Rightarrow>
                 let successfulLoads = List.map_filter fst results;
                     allItems = concat (map articles successfulLoads);
                     successfulFeeds = map source successfulLoads;
                     allItems = array_sort compareFn allItems;
                     st = st\<lparr>loadingHidden := True\<rparr>
                 in if length successfulLoads > 0
                    then Some ((showMessage (''Successfully loaded '' @ show_nat (length successfulLoads)
                                  @ '' feed(s) with '' @ show_nat (length allItems)
                                  @ '' total articles.'') Success
                                 (renderFeed allItems successfulFeeds st), False), map snd results)
                    else Some ((showMessage
                                 ''Failed to load any of the requested feeds after all retries. Check the URLs, Jacob.''
                                 Error (renderFeed [] [] st), False), map snd results))"

section \<open>Notions used in the statements\<close>

text \<open>
  The ways a fetch attempt fails according to the specification: a transport error, a
  non-success HTTP status, or an error status in the payload.
\<close>

definition failed_fetch :: "response option \<Rightarrow> bool" where
  "failed_fetch r =
     (case r of None \<Rightarrow> True
      | Some resp \<Rightarrow> \<not> response_ok resp
          \<or> (case body resp of None \<Rightarrow> False | Some d \<Rightarrow> status d = Some ''error''))"

text \<open>
  An HTTP-success reply whose payload is neither an error nor \<open>ok\<close> with items.
\<close>

definition unrecognised :: "response option \<Rightarrow> bool" where
  "unrecognised r =
     (case r of None \<Rightarrow> False
      | Some resp \<Rightarrow> response_ok resp
          \<and> (case body resp of None \<Rightarrow> False
               | Some d \<Rightarrow> status d \<noteq> Some ''error''
                          \<and> \<not> (status d = Some ''ok'' \<and> items d \<noteq> None)))"


definition waits :: "event list \<Rightarrow> nat list" where
  "waits tr = concat (map (\<lambda>e. case e of Waited d \<Rightarrow> [d] | _ \<Rightarrow> []) tr)"


text \<open>
  \<open>in_order a b\<close>: \<open>a\<close> may stand before \<open>b\<close>, that is, it is not the case that
  both dates parse and \<open>b\<close> is the more recent.
\<close>

definition in_order :: "article \<Rightarrow> article \<Rightarrow> bool" where
  "in_order a b = (case (pubDate a, pubDate b) of (Some ta, Some tb) \<Rightarrow> tb \<le> ta | _ \<Rightarrow> True)"

definition newest_first :: "article list \<Rightarrow> bool" where
  "newest_first xs = sorted_wrt in_order xs"

text \<open>
  The articles on the page after a run.
\<close>

definition shown :: "(page \<times> event list list) option \<Rightarrow> article list option" where
  "shown run = map_option (rendered \<circ> feedContainer \<circ> fst) run"

section \<open>Sample pages and proxies\<close>

definition sample_item :: "int option \<Rightarrow> article" where
  "sample_item t = \<lparr>title = ''Item'', link = ''https://a.example/item'', pubDate = t,
     description = None, content = None, feedTitle = None\<rparr>"

definition ok_body :: "article list \<Rightarrow> payload" where
  "ok_body its = \<lparr>status = Some ''ok'', message = None,
     feed = Some \<lparr>feed_name = Some ''Feed A'', feed_link = None\<rparr>, items = Some its\<rparr>"

definition no_items_body :: payload where
  "no_items_body = \<lparr>status = Some ''ok'', message = None, feed = None, items = None\<rparr>"

definition error_body :: payload where
  "error_body = \<lparr>status = Some ''error'', message = Some ''Feed could not be converted'',
     feed = None, items = None\<rparr>"

definition http :: "nat \<Rightarrow> payload \<Rightarrow> response option" where
  "http code d = Some \<lparr>status_code = code, body = Some d\<rparr>"

definition always :: "response option \<Rightarrow> nat \<Rightarrow> response option" where
  "always r k = r"

definition first_then :: "response option \<Rightarrow> response option \<Rightarrow> nat \<Rightarrow> response option" where
  "first_then r r' k = (if k = 0 then r else r')"

definition sample_hostname :: "string \<Rightarrow> string option" where
  "sample_hostname u = Some ''a.example''"

definition stored_list :: "string list \<Rightarrow> local_storage" where
  "stored_list urls = \<lparr>item = Some (ArrayText urls), read_denied = False, write_denied = False\<rparr>"

definition unwritable :: local_storage where
  "unwritable = \<lparr>item = None, read_denied = False, write_denied = True\<rparr>"

definition three_failures :: "nat \<Rightarrow> response option" where
  "three_failures k = (if k = 0 then None else if k = 1 then http 503 no_items_body
                       else http 200 error_body)"

definition recovers :: "nat \<Rightarrow> response option" where
  "recovers = first_then (http 200 no_items_body) (http 200 (ok_body [sample_item (Some 1)]))"

definition stalls_after_failure :: "nat \<Rightarrow> response option" where
  "stalls_after_failure = first_then None (http 200 no_items_body)"

definition one_hangs :: "nat \<Rightarrow> nat \<Rightarrow> response option" where
  "one_hangs i = (if i = 0 then always (http 200 (ok_body [sample_item (Some 1)]))
                  else always (http 200 no_items_body))"

definition mixed_dates :: "nat \<Rightarrow> nat \<Rightarrow> response option" where
  "mixed_dates i = always (http 200 (ok_body [sample_item (Some 1), sample_item None, sample_item (Some 3)]))"

definition all_dated :: "nat \<Rightarrow> nat \<Rightarrow> response option" where
  "all_dated i = always (http 200 (ok_body [sample_item (Some 1), sample_item (Some 3), sample_item (Some 2)]))"

definition all_fail :: "nat \<Rightarrow> nat \<Rightarrow> response option" where
  "all_fail i = three_failures"

definition error_every_time :: "nat \<Rightarrow> response option" where
  "error_every_time = always (http 200 error_body)"

definition unreachable :: "nat \<Rightarrow> response option" where
  "unreachable = always None"

definition all_unreachable :: "nat \<Rightarrow> nat \<Rightarrow> response option" where
  "all_unreachable i = unreachable"

definition showing_cards :: page where
  "showing_cards = (fresh_page (stored_list []))
     \<lparr>feedContainer := Cards [''Feed A''] [stamp ''Feed A'' (sample_item (Some 1))]\<rparr>"

section \<open>The stored feed list\<close>

lemma getFeeds_storage: "storage st' = storage st \<Longrightarrow> getFeeds st' = getFeeds st"
  by (simp add: getFeeds_def)

lemma elems_defaults: "defaults st' = defaults st \<Longrightarrow> elems st' r = elems st r"
  by (cases r) (simp_all add: elems_def)

lemma getFeeds_fallback:
  "item (storage st) = None \<or> (\<exists>s. item (storage st) = Some (Unparsable s)) \<Longrightarrow> getFeeds st = DefaultsRef"
  by (auto simp: getFeeds_def getItem_def JSON_parse_def truthy_text_def)

lemma getFeeds_fresh_page:
  "item ls = None \<or> (\<exists>s. item ls = Some (Unparsable s)) \<Longrightarrow>
     elems (fresh_page ls) (getFeeds (fresh_page ls)) = DEFAULT_FEEDS"
  by (auto simp: getFeeds_def getItem_def JSON_parse_def truthy_text_def fresh_page_def elems_def)

lemma elems_stored_list [simp]:
  "elems (fresh_page (stored_list urls)) (getFeeds (fresh_page (stored_list urls))) = urls"
  by (simp add: fresh_page_def stored_list_def getFeeds_def getItem_def truthy_text_def
        JSON_parse_def elems_def)

text \<open>
  Claim C7: with the key absent or holding text that does not parse, \<open>getFeeds\<close>
  returns the two hard-coded default URLs and throws nothing. It does throw nothing, and
  it returns the \<open>DEFAULT_FEEDS\<close> array (the lemmas above). But it returns the array
  object itself, and \<open>addFeed\<close> pushes onto the array it got. On a page whose
  storage cannot be written, the key is still absent after \<open>addFeed\<close>, and
  \<open>getFeeds\<close> then returns three URLs.
\<close>

theorem defaults_changed_in_place:
  "item (storage (snd (addFeed ((fresh_page unwritable)\<lparr>addFeedInput := ''https://x.example/rss''\<rparr>)))) = None
   \<and> elems (snd (addFeed ((fresh_page unwritable)\<lparr>addFeedInput := ''https://x.example/rss''\<rparr>)))
        (getFeeds (snd (addFeed ((fresh_page unwritable)\<lparr>addFeedInput := ''https://x.example/rss''\<rparr>))))
     = DEFAULT_FEEDS @ [''https://x.example/rss'']"
  by (simp add: addFeed_def fresh_page_def unwritable_def trim_def strip.simps white_space_def getFeeds_def
        getItem_def elems_def DEFAULT_FEEDS_def assign_def saveFeeds_def setItem_def
        renderFeedsList_def showMessage_def Let_def)

lemma addFeed_exists:
  assumes "trim (addFeedInput st) \<noteq> []"
    and "trim (addFeedInput st) \<in> set (elems st (getFeeds st))"
  shows "addFeed st = (None, st\<lparr>messageText := ''Feed URL already exists.'',
           messageClass := Warning, messageHidden := False, addFeedInput := []\<rparr>)"
  using assms by (simp add: addFeed_def Let_def showMessage_def)

text \<open>
  Claim C8, as stated, fails for \<open>addFeed\<close> of the rewritten script: on a URL
  that is already in the list it does nothing at all, so no warning is shown.
\<close>

theorem rewritten_addFeed_is_silent:
  "addFeed_rewritten ((fresh_page (stored_list [''https://a.example/rss'']))
       \<lparr>addFeedInput := '' https://a.example/rss ''\<rparr>) =
     (None, (fresh_page (stored_list [''https://a.example/rss'']))
       \<lparr>addFeedInput := '' https://a.example/rss ''\<rparr>)
   \<and> messageHidden ((fresh_page (stored_list [''https://a.example/rss'']))
       \<lparr>addFeedInput := '' https://a.example/rss ''\<rparr>)"
proof -
  have g: "getFeeds_rewritten ((fresh_page (stored_list [''https://a.example/rss'']))
       \<lparr>addFeedInput := '' https://a.example/rss ''\<rparr>) = Value (FreshArray [''https://a.example/rss''])"
    by (simp add: getFeeds_rewritten_def getItem_def fresh_page_def stored_list_def truthy_text_def
        JSON_parse_def)
  have t: "trim '' https://a.example/rss '' = ''https://a.example/rss''"
    by (simp add: trim_def strip.simps white_space_def)
  have i: "addFeedInput ((fresh_page (stored_list [''https://a.example/rss'']))
       \<lparr>addFeedInput := '' https://a.example/rss ''\<rparr>) = '' https://a.example/rss ''"
    by simp
  show ?thesis
    by (simp add: addFeed_rewritten_def i t g elems_def Let_def) (simp add: fresh_page_def)
qed

text \<open>
  Claim C8, amended. In the script with the message box, when the trimmed input is not
  empty and is a URL already in the list that \<open>getFeeds\<close> returns, \<open>addFeed\<close>
  completes without an exception, leaves storage and the defaults array as they were,
  so that the list read afterwards is the same list, and shows the warning
  \<open>Feed URL already exists.\<close>
\<close>

theorem addFeed_duplicate:
  assumes "trim (addFeedInput st) \<noteq> []"
    and "trim (addFeedInput st) \<in> set (elems st (getFeeds st))"
  shows "fst (addFeed st) = None
       \<and> storage (snd (addFeed st)) = storage st
       \<and> defaults (snd (addFeed st)) = defaults st
       \<and> elems (snd (addFeed st)) (getFeeds (snd (addFeed st))) = elems st (getFeeds st)
       \<and> messageText (snd (addFeed st)) = ''Feed URL already exists.''
       \<and> messageClass (snd (addFeed st)) = Warning
       \<and> \<not> messageHidden (snd (addFeed st))"
proof -
  let ?st' = "st\<lparr>messageText := ''Feed URL already exists.'',
           messageClass := Warning, messageHidden := False, addFeedInput := []\<rparr>"
  have "getFeeds ?st' = getFeeds st" by (rule getFeeds_storage) simp
  moreover have "elems ?st' (getFeeds st) = elems st (getFeeds st)"
    by (rule elems_defaults) simp
  ultimately show ?thesis by (simp add: addFeed_exists[OF assms])
qed

theorem addFeed_duplicate_witness:
  "fst (addFeed ((fresh_page (stored_list [''https://a.example/rss'']))\<lparr>addFeedInput := '' https://a.example/rss ''\<rparr>)) = None
   \<and> storage (snd (addFeed ((fresh_page (stored_list [''https://a.example/rss'']))\<lparr>addFeedInput := '' https://a.example/rss ''\<rparr>)))
       = stored_list [''https://a.example/rss'']
   \<and> messageText (snd (addFeed ((fresh_page (stored_list [''https://a.example/rss'']))\<lparr>addFeedInput := '' https://a.example/rss ''\<rparr>)))
       = ''Feed URL already exists.''
   \<and> messageClass (snd (addFeed ((fresh_page (stored_list [''https://a.example/rss'']))\<lparr>addFeedInput := '' https://a.example/rss ''\<rparr>)))
       = Warning"
proof -
  let ?st = "(fresh_page (stored_list [''https://a.example/rss'']))\<lparr>addFeedInput := '' https://a.example/rss ''\<rparr>"
  have t: "trim (addFeedInput ?st) = ''https://a.example/rss''"
    by (simp add: trim_def strip.simps white_space_def)
  have g: "elems ?st (getFeeds ?st) = [''https://a.example/rss'']"
    by (simp add: fresh_page_def stored_list_def getFeeds_def getItem_def truthy_text_def
        JSON_parse_def elems_def)
  have s: "storage ?st = stored_list [''https://a.example/rss'']"
    by (simp add: fresh_page_def)
  from addFeed_duplicate[of ?st] t g s show ?thesis by simp
qed

lemma splice1_beyond: "int (length xs) \<le> i \<Longrightarrow> splice1 xs i = xs"
  by (simp add: splice1_def Let_def)

lemma at_index_beyond: "int (length xs) \<le> i \<Longrightarrow> at_index xs i = None"
  by (simp add: at_index_def)

lemma saveFeeds_same_list:
  "elems (saveFeeds (elems st (getFeeds st)) st) (getFeeds (saveFeeds (elems st (getFeeds st)) st))
     = elems st (getFeeds st)"
  by (cases "getFeeds st")
     (auto simp: saveFeeds_def setItem_def getFeeds_def getItem_def elems_def
        truthy_text_def JSON_parse_def split: if_splits)

lemma renderFeedsList_frame:
  "storage (renderFeedsList st) = storage st" "defaults (renderFeedsList st) = defaults st"
  "messageText (renderFeedsList st) = messageText st"
  "messageHidden (renderFeedsList st) = messageHidden st"
  by (simp_all add: renderFeedsList_def Let_def)

lemma saveFeeds_frame:
  "defaults (saveFeeds xs st) = defaults st"
  "messageText (saveFeeds xs st) = messageText st"
  "messageHidden (saveFeeds xs st) = messageHidden st"
  "item (storage (saveFeeds xs st)) =
     (if write_denied (storage st) then item (storage st) else Some (ArrayText xs))"
  by (simp_all add: saveFeeds_def setItem_def)

lemma assign_same: "assign r (elems st r) st = (r, st)"
  by (cases r) (simp_all add: assign_def elems_def)

lemma removeFeed_beyond:
  assumes "int (length (elems st (getFeeds st))) \<le> index"
  shows "removeFeed index st =
           (Some TypeError, renderFeedsList (saveFeeds (elems st (getFeeds st)) st))"
  by (simp add: removeFeed_def Let_def splice1_beyond[OF assms] at_index_beyond[OF assms] assign_same)

text \<open>
  Claim C10. For an index at or beyond the length of the list, \<open>removeFeed\<close>
  removes nothing, writes the unchanged list back (where storage can be written), and
  then throws a \<open>TypeError\<close> at \<open>urlToRemove.substring\<close>, before any message is
  shown.
\<close>

theorem removeFeed_out_of_range:
  assumes "int (length (elems st (getFeeds st))) \<le> index"
  shows "fst (removeFeed index st) = Some TypeError
       \<and> elems (snd (removeFeed index st)) (getFeeds (snd (removeFeed index st))) = elems st (getFeeds st)
       \<and> defaults (snd (removeFeed index st)) = defaults st
       \<and> item (storage (snd (removeFeed index st))) =
           (if write_denied (storage st) then item (storage st)
            else Some (ArrayText (elems st (getFeeds st))))
       \<and> messageText (snd (removeFeed index st)) = messageText st
       \<and> messageHidden (snd (removeFeed index st)) = messageHidden st"
proof -
  let ?saved = "saveFeeds (elems st (getFeeds st)) st"
  have "getFeeds (renderFeedsList ?saved) = getFeeds ?saved"
    by (rule getFeeds_storage) (simp add: renderFeedsList_frame)
  moreover have "elems (renderFeedsList ?saved) (getFeeds ?saved) = elems ?saved (getFeeds ?saved)"
    by (rule elems_defaults) (simp add: renderFeedsList_frame)
  ultimately show ?thesis
    by (simp add: removeFeed_beyond[OF assms] renderFeedsList_frame saveFeeds_frame
          saveFeeds_same_list)
qed

theorem removeFeed_out_of_range_witness:
  "fst (removeFeed 2 (fresh_page (stored_list [''https://a.example/rss'', ''https://b.example/rss''])))
     = Some TypeError
   \<and> item (storage (snd (removeFeed 2
         (fresh_page (stored_list [''https://a.example/rss'', ''https://b.example/rss''])))))
     = Some (ArrayText [''https://a.example/rss'', ''https://b.example/rss''])"
proof -
  let ?st = "fresh_page (stored_list [''https://a.example/rss'', ''https://b.example/rss''])"
  have len: "int (length (elems ?st (getFeeds ?st))) \<le> 2" by simp
  have w: "\<not> write_denied (storage ?st)" by (simp add: fresh_page_def stored_list_def)
  from removeFeed_out_of_range[OF len] w show ?thesis by simp
qed

section \<open>The retry loop\<close>

lemma failed_fetch_Threw: "failed_fetch r \<Longrightarrow> try_block hostname rssUrl r = Threw"
  by (auto simp: failed_fetch_def try_block_def split: option.splits bool.splits)

lemma unrecognised_FellThrough: "unrecognised r \<Longrightarrow> try_block hostname rssUrl r = FellThrough"
  by (auto simp: unrecognised_def try_block_def split: option.splits bool.splits)

lemma retry_loop_Threw_last:
  "try_block hostname rssUrl (net calls) = Threw \<Longrightarrow> a' = attempt + 1 \<Longrightarrow> a' = MAX_RETRIES \<Longrightarrow>
     retry_loop hostname net rssUrl attempt calls = Some (None, [Fetched, Failed a'])"
  by (subst retry_loop.simps) simp

lemma retry_loop_Threw_again:
  "try_block hostname rssUrl (net calls) = Threw \<Longrightarrow> a' = attempt + 1 \<Longrightarrow> c' = calls + 1 \<Longrightarrow>
   a' < MAX_RETRIES \<Longrightarrow>
     retry_loop hostname net rssUrl attempt calls =
       Option.bind (retry_loop hostname net rssUrl a' c')
         (\<lambda>r. Some (fst r, Fetched # Failed a' # Waited (2 ^ a' * 1000) # snd r))"
  by (subst retry_loop.simps) simp

lemma retry_loop_FellThrough:
  "try_block hostname rssUrl (net calls) = FellThrough \<Longrightarrow> c' = calls + 1 \<Longrightarrow> attempt < MAX_RETRIES \<Longrightarrow>
     retry_loop hostname net rssUrl attempt calls =
       Option.bind (retry_loop hostname net rssUrl attempt c')
         (\<lambda>r. Some (fst r, Fetched # snd r))"
  by (subst retry_loop.simps) simp

lemma retry_loop_Returned:
  "try_block hostname rssUrl (net calls) = Returned d \<Longrightarrow> attempt < MAX_RETRIES \<Longrightarrow>
     retry_loop hostname net rssUrl attempt calls = Some (Some d, [Fetched])"
  by (subst retry_loop.simps) simp

lemma three_cases: "(\<forall>k<3. P k) = (P 0 \<and> P 1 \<and> P (2::nat))"
proof -
  have "k < 3 \<longleftrightarrow> k = 0 \<or> k = 1 \<or> k = 2" for k :: nat by arith
  then show ?thesis by auto
qed

lemma three_failures_fail: "\<forall>k<3. failed_fetch (three_failures k)"
  by (simp add: three_cases three_failures_def failed_fetch_def http_def response_ok_def
        error_body_def no_items_body_def)

lemma loadFeed_three_throws:
  assumes "rssUrl \<noteq> []" and "\<forall>k<3. try_block hostname rssUrl (net k) = Threw"
  shows "loadFeed hostname net rssUrl =
    Some (None, [Fetched, Failed 1, Waited 2000, Fetched, Failed 2, Waited 4000, Fetched, Failed 3])"
proof -
  have t: "try_block hostname rssUrl (net 0) = Threw" "try_block hostname rssUrl (net 1) = Threw"
     "try_block hostname rssUrl (net 2) = Threw"
    using assms(2) by simp_all
  have l2: "retry_loop hostname net rssUrl 2 2 = Some (None, [Fetched, Failed 3])"
    by (rule retry_loop_Threw_last) (use t in \<open>simp_all add: MAX_RETRIES_def\<close>)
  have "retry_loop hostname net rssUrl 1 1 =
      Option.bind (retry_loop hostname net rssUrl 2 2)
         (\<lambda>r. Some (fst r, Fetched # Failed 2 # Waited (2 ^ 2 * 1000) # snd r))"
    by (rule retry_loop_Threw_again) (use t in \<open>simp_all add: MAX_RETRIES_def\<close>)
  then have l1: "retry_loop hostname net rssUrl 1 1 =
      Some (None, [Fetched, Failed 2, Waited 4000, Fetched, Failed 3])"
    using l2 by simp
  have "retry_loop hostname net rssUrl 0 0 =
      Option.bind (retry_loop hostname net rssUrl 1 1)
         (\<lambda>r. Some (fst r, Fetched # Failed 1 # Waited (2 ^ 1 * 1000) # snd r))"
    by (rule retry_loop_Threw_again) (use t in \<open>simp_all add: MAX_RETRIES_def\<close>)
  then have "retry_loop hostname net rssUrl 0 0 =
      Some (None, [Fetched, Failed 1, Waited 2000, Fetched, Failed 2, Waited 4000, Fetched, Failed 3])"
    using l1 by simp
  then show ?thesis using assms(1) by (simp add: loadFeed_def)
qed

lemma loadFeed_all_fail:
  assumes "rssUrl \<noteq> []" and "\<forall>k<3. failed_fetch (net k)"
  shows "loadFeed hostname net rssUrl =
    Some (None, [Fetched, Failed 1, Waited 2000, Fetched, Failed 2, Waited 4000, Fetched, Failed 3])"
  using assms by (intro loadFeed_three_throws) (simp_all add: failed_fetch_Threw)

text \<open>
  Claim C2, as stated, fails for \<open>fetchFeedWithRetry\<close> of the rewritten script:
  an error status in the payload is not a failure there. The body is returned after one
  fetch, with no retry.
\<close>

theorem error_payload_returned_after_one_fetch:
  "failed_fetch (error_every_time 0) \<and> failed_fetch (error_every_time 1)
   \<and> failed_fetch (error_every_time 2)
   \<and> fetchFeedWithRetry error_every_time = (Value (Some error_body), [Fetched])"
  by (simp add: error_every_time_def fetchFeedWithRetry_def fetchFeedWithRetry_from.simps
        always_def http_def response_ok_def failed_fetch_def error_body_def)

text \<open>
  Claim C2, amended. When the first three fetch attempts of \<open>loadFeed\<close> for a
  non-empty URL each fail by a transport error, a non-success HTTP status or an error
  status in the payload, \<open>loadFeed\<close> returns \<open>null\<close> after exactly three calls of
  \<open>fetch\<close>.
\<close>

theorem loadFeed_exhausts:
  assumes "rssUrl \<noteq> []" and "\<forall>k<3. failed_fetch (net k)"
  shows "\<exists>tr. loadFeed hostname net rssUrl = Some (None, tr) \<and> count_list tr Fetched = 3"
  using loadFeed_all_fail[OF assms] by simp

theorem loadFeed_exhausts_witness:
  "\<exists>tr. loadFeed sample_hostname three_failures ''https://b.example/rss'' = Some (None, tr)
        \<and> count_list tr Fetched = 3"
  using loadFeed_exhausts[of "''https://b.example/rss''" three_failures sample_hostname]
    three_failures_fail by simp

lemma waits_simps [simp]:
  "waits [] = []" "waits (Fetched # tr) = waits tr" "waits (Failed i # tr) = waits tr"
  "waits (Waited d # tr) = d # waits tr"
  by (simp_all add: waits_def)






lemma retry_loop_no_result:
  assumes "retry_loop hostname net rssUrl attempt calls = Some r"
  shows "attempt < MAX_RETRIES \<longrightarrow> \<not> (\<forall>k\<ge>calls. try_block hostname rssUrl (net k) = FellThrough)"
proof (rule retry_loop.raw_induct[where P = "\<lambda>hostname net rssUrl attempt calls r.
         attempt < MAX_RETRIES \<longrightarrow> \<not> (\<forall>k\<ge>calls. try_block hostname rssUrl (net k) = FellThrough)",
       OF _ assms], goal_cases)
  case (1 f hostname net rssUrl attempt calls r)
  show ?case
  proof (intro impI notI)
    assume a: "attempt < MAX_RETRIES" and ft: "\<forall>k\<ge>calls. try_block hostname rssUrl (net k) = FellThrough"
    from ft have here: "try_block hostname rssUrl (net calls) = FellThrough" by simp
    from "1"(2) a here obtain r' where "f hostname net rssUrl attempt (calls + 1) = Some r'"
      by (auto simp: bind_eq_Some_conv)
    from "1"(1)[OF this] a ft show False by simp
  qed
qed

lemma retry_loop_never_returns:
  assumes "attempt < MAX_RETRIES" and "\<forall>k\<ge>calls. try_block hostname rssUrl (net k) = FellThrough"
  shows "retry_loop hostname net rssUrl attempt calls = None"
proof (cases "retry_loop hostname net rssUrl attempt calls")
  case None then show ?thesis .
next
  case (Some r)
  from retry_loop_no_result[OF Some] assms show ?thesis by simp
qed

lemma retry_loop_stuck_after:
  assumes "\<forall>k\<ge>calls + n. try_block hostname rssUrl (net k) = FellThrough"
    and "\<forall>k\<in>set [calls..<calls + n]. \<forall>d. try_block hostname rssUrl (net k) \<noteq> Returned d"
    and "attempt + length (filter (\<lambda>k. try_block hostname rssUrl (net k) = Threw) [calls..<calls + n])
           < MAX_RETRIES"
  shows "retry_loop hostname net rssUrl attempt calls = None"
  using assms
proof (induction n arbitrary: attempt calls)
  case 0
  then show ?case by (intro retry_loop_never_returns) simp_all
next
  case (Suc n)
  have split: "[calls..<calls + Suc n] = calls # [calls + 1..<calls + 1 + n]"
    by (subst upt_conv_Cons) simp_all
  have later: "\<forall>k\<ge>calls + 1 + n. try_block hostname rssUrl (net k) = FellThrough"
    using Suc.prems(1) by simp
  have nosucc: "\<forall>k\<in>set [calls + 1..<calls + 1 + n]. \<forall>d. try_block hostname rssUrl (net k) \<noteq> Returned d"
    using Suc.prems(2) unfolding split by simp
  show ?case
  proof (cases "try_block hostname rssUrl (net calls)")
    case (Returned d)
    with Suc.prems(2) show ?thesis unfolding split by simp
  next
    case Threw
    with Suc.prems(3) have budget:
      "attempt + 1 + length (filter (\<lambda>k. try_block hostname rssUrl (net k) = Threw) [calls + 1..<calls + 1 + n])
           < MAX_RETRIES"
      unfolding split by simp
    then have "attempt + 1 < MAX_RETRIES" by simp
    from retry_loop_Threw_again[of hostname rssUrl net calls "attempt + 1" attempt "calls + 1"]
      Threw this Suc.IH[OF later nosucc budget]
    show ?thesis by simp
  next
    case FellThrough
    with Suc.prems(3) have budget:
      "attempt + length (filter (\<lambda>k. try_block hostname rssUrl (net k) = Threw) [calls + 1..<calls + 1 + n])
           < MAX_RETRIES"
      unfolding split by simp
    then have "attempt < MAX_RETRIES" by simp
    from retry_loop_FellThrough[of hostname rssUrl net calls "calls + 1" attempt]
      FellThrough this Suc.IH[OF later nosucc budget]
    show ?thesis by simp
  qed
qed

lemma try_block_ok_body:
  "try_block sample_hostname rssUrl (http 200 (ok_body its)) =
     Returned \<lparr>source = \<lparr>feed_name = Some ''Feed A'', feed_link = None\<rparr>,
               articles = map (stamp ''Feed A'') its\<rparr>"
  by (simp add: try_block_def http_def ok_body_def response_ok_def)

lemma no_items_unrecognised: "unrecognised (http 200 no_items_body)"
  by (simp add: unrecognised_def http_def no_items_body_def response_ok_def)

lemma loadFeed_ok_at_once:
  "rssUrl \<noteq> [] \<Longrightarrow> loadFeed sample_hostname (always (http 200 (ok_body its))) rssUrl =
     Some (Some \<lparr>source = \<lparr>feed_name = Some ''Feed A'', feed_link = None\<rparr>,
                  articles = map (stamp ''Feed A'') its\<rparr>, [Fetched])"
  using retry_loop_Returned[of sample_hostname rssUrl "always (http 200 (ok_body its))" 0 _ 0]
  by (simp add: loadFeed_def always_def try_block_ok_body MAX_RETRIES_def)

text \<open>
  Claim C9, as stated, fails: one unrecognised reply does not make the loop run
  forever. Here the first reply is unrecognised and the second is a success, and
  \<open>loadFeed\<close> returns the feed after two fetches.
\<close>

theorem one_unrecognised_reply_then_success:
  "unrecognised (recovers 0)
   \<and> loadFeed sample_hostname recovers ''https://a.example/rss'' =
       Some (Some \<lparr>source = \<lparr>feed_name = Some ''Feed A'', feed_link = None\<rparr>,
                    articles = [stamp ''Feed A'' (sample_item (Some 1))]\<rparr>, [Fetched, Fetched])"
proof -
  have u: "unrecognised (recovers 0)"
    by (simp add: recovers_def first_then_def no_items_unrecognised)
  have "retry_loop sample_hostname recovers ''https://a.example/rss'' 0 1 =
      Some (Some \<lparr>source = \<lparr>feed_name = Some ''Feed A'', feed_link = None\<rparr>,
                    articles = [stamp ''Feed A'' (sample_item (Some 1))]\<rparr>, [Fetched])"
    by (rule retry_loop_Returned)
       (simp_all add: recovers_def first_then_def try_block_ok_body MAX_RETRIES_def)
  moreover have "retry_loop sample_hostname recovers ''https://a.example/rss'' 0 0 =
      Option.bind (retry_loop sample_hostname recovers ''https://a.example/rss'' 0 1)
        (\<lambda>r. Some (fst r, Fetched # snd r))"
    by (rule retry_loop_FellThrough)
       (use u in \<open>simp_all add: unrecognised_FellThrough MAX_RETRIES_def\<close>)
  ultimately show ?thesis using u by (simp add: loadFeed_def)
qed

text \<open>
  Claim C9, amended. An unrecognised reply costs no attempt and no wait: the loop goes
  on with the same counter. If from the \<open>n\<close>-th fetch on every reply is unrecognised,
  and the loop is still running then (no success and fewer than three failures among the
  first \<open>n\<close> replies), \<open>loadFeed\<close> never returns.
\<close>

theorem unrecognised_reply_loops:
  "(attempt < MAX_RETRIES \<and> unrecognised (net calls) \<longrightarrow>
      retry_loop hostname net rssUrl attempt calls =
        Option.bind (retry_loop hostname net rssUrl attempt (calls + 1))
          (\<lambda>r. Some (fst r, Fetched # snd r)))
   \<and> (rssUrl \<noteq> [] \<and> (\<forall>k\<ge>n. unrecognised (net k))
        \<and> (\<forall>k<n. \<forall>d. try_block hostname rssUrl (net k) \<noteq> Returned d)
        \<and> length (filter (\<lambda>k. try_block hostname rssUrl (net k) = Threw) [0..<n]) < MAX_RETRIES
      \<longrightarrow> loadFeed hostname net rssUrl = None)"
proof (intro conjI impI)
  assume "attempt < MAX_RETRIES \<and> unrecognised (net calls)"
  then show "retry_loop hostname net rssUrl attempt calls =
        Option.bind (retry_loop hostname net rssUrl attempt (calls + 1))
          (\<lambda>r. Some (fst r, Fetched # snd r))"
    by (intro retry_loop_FellThrough) (simp_all add: unrecognised_FellThrough)
next
  assume h: "rssUrl \<noteq> [] \<and> (\<forall>k\<ge>n. unrecognised (net k))
        \<and> (\<forall>k<n. \<forall>d. try_block hostname rssUrl (net k) \<noteq> Returned d)
        \<and> length (filter (\<lambda>k. try_block hostname rssUrl (net k) = Threw) [0..<n]) < MAX_RETRIES"
  then have "retry_loop hostname net rssUrl 0 0 = None"
    by (intro retry_loop_stuck_after[where n = n]) (simp_all add: unrecognised_FellThrough)
  with h show "loadFeed hostname net rssUrl = None" by (simp add: loadFeed_def)
qed

theorem unrecognised_reply_loops_witness:
  "retry_loop sample_hostname stalls_after_failure ''https://b.example/rss'' 1 1 =
     Option.bind (retry_loop sample_hostname stalls_after_failure ''https://b.example/rss'' 1 (1 + 1))
       (\<lambda>r. Some (fst r, Fetched # snd r))
   \<and> loadFeed sample_hostname stalls_after_failure ''https://b.example/rss'' = None"
proof -
  have later: "\<forall>k\<ge>1. unrecognised (stalls_after_failure k)"
    by (simp add: stalls_after_failure_def first_then_def no_items_unrecognised)
  have first: "try_block sample_hostname ''https://b.example/rss'' (stalls_after_failure 0) = Threw"
    by (simp add: stalls_after_failure_def first_then_def try_block_def)
  from unrecognised_reply_loops[of 1 stalls_after_failure 1 sample_hostname "''https://b.example/rss''" 1]
    later first
  show ?thesis by (simp add: MAX_RETRIES_def)
qed

lemma retry_loop_success:
  assumes "retry_loop hostname net rssUrl attempt calls = Some r"
  shows "\<forall>d. fst r = Some d \<longrightarrow> (\<exists>k. try_block hostname rssUrl (net k) = Returned d)"
proof (rule retry_loop.raw_induct[where P = "\<lambda>hostname net rssUrl attempt calls r.
         \<forall>d. fst r = Some d \<longrightarrow> (\<exists>k. try_block hostname rssUrl (net k) = Returned d)", OF _ assms], goal_cases)
  case (1 f hostname net rssUrl attempt calls r)
  show ?case
  proof (cases "attempt < MAX_RETRIES")
    case False
    with "1"(2) show ?thesis by auto
  next
    case running: True
    show ?thesis
    proof (cases "try_block hostname rssUrl (net calls)")
      case (Returned d)
      with "1"(2) running show ?thesis by auto
    next
      case Threw
      with "1"(2) running "1"(1) show ?thesis
        by (auto simp: bind_eq_Some_conv split: if_splits)
    next
      case FellThrough
      with "1"(2) running "1"(1) show ?thesis
        by (auto simp: bind_eq_Some_conv)
    qed
  qed
qed

lemma try_block_stamps:
  "try_block hostname rssUrl fetched = Returned d \<Longrightarrow> \<forall>a\<in>set (articles d). feedTitle a \<noteq> None"
  by (auto simp: try_block_def stamp_def split: option.splits if_splits bool.splits)

lemma loadFeed_stamps:
  assumes "loadFeed hostname net rssUrl = Some (Some d, tr)"
  shows "\<forall>a\<in>set (articles d). feedTitle a \<noteq> None"
proof -
  from assms have "retry_loop hostname net rssUrl 0 0 = Some (Some d, tr)"
    by (simp add: loadFeed_def split: if_splits)
  from retry_loop_success[OF this] obtain k where "try_block hostname rssUrl (net k) = Returned d"
    by auto
  then show ?thesis by (rule try_block_stamps)
qed

section \<open>Sorting\<close>

lemma mset_insert_sorted: "mset (insert_sorted f x ys) = add_mset x (mset ys)"
  by (induction ys) simp_all

lemma mset_array_sort: "mset (array_sort f xs) = mset xs"
  by (induction xs) (simp_all add: array_sort_def mset_insert_sorted)

lemma set_array_sort: "set (array_sort f xs) = set xs"
  using mset_array_sort[of f xs] by (metis set_mset_mset)

lemma set_insert_sorted: "set (insert_sorted f x ys) = insert x (set ys)"
  using mset_insert_sorted[of f x ys] by (metis set_mset_mset set_mset_add_mset_insert)

lemma insert_sorted_in_order:
  assumes "\<forall>a\<in>set (x # ys). pubDate a \<noteq> None" and "sorted_wrt in_order ys"
  shows "sorted_wrt in_order (insert_sorted compareFn x ys)"
  using assms
proof (induction ys)
  case Nil
  then show ?case by simp
next
  case (Cons y ys)
  from Cons.prems(1) obtain tx ty where tx: "pubDate x = Some tx" and ty: "pubDate y = Some ty"
    by auto
  show ?case
  proof (cases "sortCompare compareFn x y \<le> 0")
    case True
    then have le: "ty \<le> tx" by (simp add: sortCompare_def compareFn_def tx ty)
    have "in_order x z" if "z \<in> set (y # ys)" for z
    proof -
      from that Cons.prems(1) obtain tz where tz: "pubDate z = Some tz" by auto
      from that Cons.prems(2) have "z = y \<or> in_order y z" by auto
      then have "tz \<le> ty" using ty tz by (auto simp: in_order_def)
      with le show ?thesis by (simp add: in_order_def tx tz)
    qed
    with True Cons.prems(2) show ?thesis by simp
  next
    case False
    then have "tx \<le> ty" by (simp add: sortCompare_def compareFn_def tx ty)
    then have "in_order y x" by (simp add: in_order_def tx ty)
    moreover have "sorted_wrt in_order (insert_sorted compareFn x ys)"
      using Cons by simp
    ultimately show ?thesis using False Cons.prems(2) by (auto simp: set_insert_sorted)
  qed
qed

lemma array_sort_newest_first:
  "\<forall>a\<in>set xs. pubDate a \<noteq> None \<Longrightarrow> newest_first (array_sort compareFn xs)"
proof (induction xs)
  case Nil
  then show ?case by (simp add: newest_first_def array_sort_def)
next
  case (Cons x xs)
  then have "sorted_wrt in_order (array_sort compareFn xs)" by (simp add: newest_first_def)
  moreover have "\<forall>a\<in>set (x # array_sort compareFn xs). pubDate a \<noteq> None"
    using Cons.prems by (simp add: set_array_sort)
  ultimately have "sorted_wrt in_order (insert_sorted compareFn x (array_sort compareFn xs))"
    by (intro insert_sorted_in_order)
  then show ?case by (simp add: newest_first_def array_sort_def)
qed

section \<open>Loading all feeds\<close>

lemma loadAllFeeds_settled:
  assumes "elems st (getFeeds st) \<noteq> []"
    and "awaitAll (fetchPromises hostname net (elems st (getFeeds st))) = Some results"
  shows "\<exists>st'. loadAllFeeds hostname net st = Some (st', map snd results)
       \<and> rendered (feedContainer st') =
           array_sort compareFn (concat (map articles (List.map_filter fst results)))
       \<and> (List.map_filter fst results = [] \<longrightarrow>
            feedContainer st' = NoArticles \<and> messageClass st' = Error
            \<and> messageText st' = ''Failed to load any of the requested feeds after all retries. Open Settings to verify URLs.''
            \<and> \<not> messageHidden st')
       \<and> (List.map_filter fst results \<noteq> [] \<longrightarrow> messageClass st' = Success \<and> \<not> messageHidden st')
       \<and> loadingHidden st'"
  using assms
  by (simp add: loadAllFeeds_def Let_def showMessage_def renderFeed_def rendered_def array_sort_def)

lemma shown_settled:
  assumes "elems st (getFeeds st) \<noteq> []"
    and "awaitAll (fetchPromises hostname net (elems st (getFeeds st))) = Some results"
  shows "shown (loadAllFeeds hostname net st) =
           Some (array_sort compareFn (concat (map articles (List.map_filter fst results))))"
  using loadAllFeeds_settled[OF assms] by (auto simp: shown_def)

lemma awaitAll_Some:
  "awaitAll ps = Some rs \<Longrightarrow> ps = map Some rs"
  by (induction ps arbitrary: rs) (auto split: option.splits)

lemma awaitAll_map_Some: "awaitAll (map Some rs) = Some rs"
  by (induction rs) simp_all

lemma awaitAll_never:
  "None \<in> set ps \<Longrightarrow> awaitAll ps = None"
  by (induction ps) (auto split: option.splits)

lemma fetchPromises_nth:
  "i < length feedUrls \<Longrightarrow>
     fetchPromises hostname net feedUrls ! i = loadFeed hostname (net i) (feedUrls ! i)"
  by (simp add: fetchPromises_def nth_enumerate_eq)

lemma length_fetchPromises: "length (fetchPromises hostname net feedUrls) = length feedUrls"
  by (simp add: fetchPromises_def)

lemma fetchPromises_one:
  "fetchPromises hostname net [u] = [loadFeed hostname (net 0) u]"
  by (simp add: fetchPromises_def enumerate_simps)

lemma fetchPromises_two:
  "fetchPromises hostname net [u, v] = [loadFeed hostname (net 0) u, loadFeed hostname (net 1) v]"
  by (simp add: fetchPromises_def enumerate_simps)

lemma loadAllFeeds_settles:
  assumes "loadAllFeeds hostname net st = Some (st', trs)"
    and "elems st (getFeeds st) \<noteq> []"
  shows "\<exists>results. awaitAll (fetchPromises hostname net (elems st (getFeeds st))) = Some results"
  using assms by (cases "awaitAll (fetchPromises hostname net (elems st (getFeeds st)))")
    (simp_all add: loadAllFeeds_def Let_def)

text \<open>
  When every task settles, the page shows exactly the articles of the feeds that
  loaded, each with its feed title set.
\<close>

lemma loadAllFeeds_merges:
  assumes "elems st (getFeeds st) \<noteq> []"
    and "awaitAll (fetchPromises hostname net (elems st (getFeeds st))) = Some results"
  shows "\<exists>st' trs. loadAllFeeds hostname net st = Some (st', trs)
       \<and> mset (rendered (feedContainer st')) = mset (concat (map articles (List.map_filter fst results)))
       \<and> (\<forall>a\<in>set (rendered (feedContainer st')). feedTitle a \<noteq> None)"
proof -
  let ?urls = "elems st (getFeeds st)"
  from loadAllFeeds_settled[OF assms] obtain st' where
    run: "loadAllFeeds hostname net st = Some (st', map snd results)"
    and shown: "rendered (feedContainer st') =
           array_sort compareFn (concat (map articles (List.map_filter fst results)))"
    by blast
  have "feedTitle a \<noteq> None" if "a \<in> set (rendered (feedContainer st'))" for a
  proof -
    from that shown obtain d where d: "d \<in> set (List.map_filter fst results)" and a: "a \<in> set (articles d)"
      by (auto simp: set_array_sort)
    from d obtain tr where "(Some d, tr) \<in> set results"
      by (auto simp: map_filter_def)
    then have "Some (Some d, tr) \<in> set (fetchPromises hostname net ?urls)"
      using awaitAll_Some[OF assms(2)] by simp
    then obtain i where "i < length ?urls" and "loadFeed hostname (net i) (?urls ! i) = Some (Some d, tr)"
      by (auto simp: in_set_conv_nth length_fetchPromises fetchPromises_nth)
    from loadFeed_stamps[OF this(2)] a show ?thesis by simp
  qed
  with run shown show ?thesis by (simp add: mset_array_sort)
qed

text \<open>
  Claim C1: when at least one feed loads, \<open>loadAllFeeds\<close> renders exactly the
  articles of the feeds that loaded, each with its feed title. The code does not deliver
  this when the task of another feed never settles: with two URLs, the first loading at
  once and the second answered by \<open>ok\<close> without items every time,
  \<open>loadAllFeeds\<close> never gets past its \<open>await\<close>, and nothing is rendered.
\<close>

theorem hung_feed_blocks_rendering:
  "loadFeed sample_hostname (one_hangs 0) ''https://a.example/rss'' =
     Some (Some \<lparr>source = \<lparr>feed_name = Some ''Feed A'', feed_link = None\<rparr>,
                  articles = [stamp ''Feed A'' (sample_item (Some 1))]\<rparr>, [Fetched])
   \<and> loadFeed sample_hostname (one_hangs 1) ''https://b.example/rss'' = None
   \<and> loadAllFeeds sample_hostname one_hangs
         (fresh_page (stored_list [''https://a.example/rss'', ''https://b.example/rss''])) = None"
proof -
  have a: "loadFeed sample_hostname (one_hangs 0) ''https://a.example/rss'' =
     Some (Some \<lparr>source = \<lparr>feed_name = Some ''Feed A'', feed_link = None\<rparr>,
                  articles = [stamp ''Feed A'' (sample_item (Some 1))]\<rparr>, [Fetched])"
    using loadFeed_ok_at_once[of "''https://a.example/rss''" "[sample_item (Some 1)]"]
    by (simp add: one_hangs_def)
  have "retry_loop sample_hostname (one_hangs 1) ''https://b.example/rss'' 0 0 = None"
    by (rule retry_loop_never_returns)
       (simp_all add: MAX_RETRIES_def one_hangs_def always_def unrecognised_FellThrough no_items_unrecognised)
  then have b: "loadFeed sample_hostname (one_hangs 1) ''https://b.example/rss'' = None"
    by (simp add: loadFeed_def)
  have "awaitAll (fetchPromises sample_hostname one_hangs
          [''https://a.example/rss'', ''https://b.example/rss'']) = None"
    by (rule awaitAll_never) (use b in \<open>simp add: fetchPromises_two\<close>)
  then have "loadAllFeeds sample_hostname one_hangs
         (fresh_page (stored_list [''https://a.example/rss'', ''https://b.example/rss''])) = None"
    by (simp add: loadAllFeeds_def Let_def)
  with a b show ?thesis by simp
qed

lemma loadAllFeeds_newest_first:
  assumes "loadAllFeeds hostname net st = Some (st', trs)"
    and "\<forall>a\<in>set (rendered (feedContainer st')). pubDate a \<noteq> None"
  shows "newest_first (rendered (feedContainer st'))"
proof (cases "elems st (getFeeds st) = []")
  case True
  with assms(1) show ?thesis
    by (auto simp: loadAllFeeds_def rendered_def newest_first_def)
next
  case False
  from loadAllFeeds_settles[OF assms(1) False] obtain results where
    "awaitAll (fetchPromises hostname net (elems st (getFeeds st))) = Some results" ..
  from loadAllFeeds_settled[OF False this] assms(1)
  have shown: "rendered (feedContainer st') =
           array_sort compareFn (concat (map articles (List.map_filter fst results)))"
    by auto
  with assms(2) have "\<forall>a\<in>set (concat (map articles (List.map_filter fst results))). pubDate a \<noteq> None"
    by (simp add: set_array_sort)
  from array_sort_newest_first[OF this] shown show ?thesis by simp
qed

text \<open>
  Claim C4, as stated, fails: an article whose date does not parse compares as equal
  to every other, and the sort leaves an older article before a newer one.
\<close>

theorem unparsable_date_breaks_order:
  "shown (loadAllFeeds sample_hostname mixed_dates (fresh_page (stored_list [''https://a.example/rss''])))
     = Some [stamp ''Feed A'' (sample_item (Some 1)), stamp ''Feed A'' (sample_item None),
             stamp ''Feed A'' (sample_item (Some 3))]
   \<and> \<not> newest_first [stamp ''Feed A'' (sample_item (Some 1)), stamp ''Feed A'' (sample_item None),
             stamp ''Feed A'' (sample_item (Some 3))]"
proof -
  have "awaitAll (fetchPromises sample_hostname mixed_dates
          (elems (fresh_page (stored_list [''https://a.example/rss'']))
             (getFeeds (fresh_page (stored_list [''https://a.example/rss''])))))
        = Some [(Some \<lparr>source = \<lparr>feed_name = Some ''Feed A'', feed_link = None\<rparr>,
                  articles = map (stamp ''Feed A'')
                    [sample_item (Some 1), sample_item None, sample_item (Some 3)]\<rparr>, [Fetched])]"
    by (simp add: fetchPromises_one mixed_dates_def loadFeed_ok_at_once)
  from shown_settled[OF _ this] show ?thesis
    by (simp add: map_filter_def array_sort_def sortCompare_def compareFn_def stamp_def
          sample_item_def newest_first_def in_order_def)
qed

text \<open>
  Claim C4, amended. When the date of every article shown parses, the articles are in
  order, newest first.
\<close>

theorem rendered_newest_first:
  assumes "shown (loadAllFeeds hostname net st) = Some xs"
    and "\<forall>a\<in>set xs. pubDate a \<noteq> None"
  shows "newest_first xs"
proof -
  from assms(1) obtain st' trs where "loadAllFeeds hostname net st = Some (st', trs)"
    and "xs = rendered (feedContainer st')"
    by (auto simp: shown_def)
  with assms(2) show ?thesis using loadAllFeeds_newest_first by blast
qed

lemma shown_all_dated:
  "shown (loadAllFeeds sample_hostname all_dated (fresh_page (stored_list [''https://a.example/rss''])))
     = Some [stamp ''Feed A'' (sample_item (Some 3)), stamp ''Feed A'' (sample_item (Some 2)),
             stamp ''Feed A'' (sample_item (Some 1))]"
proof -
  have "awaitAll (fetchPromises sample_hostname all_dated
          (elems (fresh_page (stored_list [''https://a.example/rss'']))
             (getFeeds (fresh_page (stored_list [''https://a.example/rss''])))))
        = Some [(Some \<lparr>source = \<lparr>feed_name = Some ''Feed A'', feed_link = None\<rparr>,
                  articles = map (stamp ''Feed A'')
                    [sample_item (Some 1), sample_item (Some 3), sample_item (Some 2)]\<rparr>, [Fetched])]"
    by (simp add: fetchPromises_one all_dated_def loadFeed_ok_at_once)
  from shown_settled[OF _ this] show ?thesis
    by (simp add: map_filter_def array_sort_def sortCompare_def compareFn_def stamp_def sample_item_def)
qed

theorem rendered_newest_first_witness:
  "shown (loadAllFeeds sample_hostname all_dated (fresh_page (stored_list [''https://a.example/rss''])))
     = Some [stamp ''Feed A'' (sample_item (Some 3)), stamp ''Feed A'' (sample_item (Some 2)),
             stamp ''Feed A'' (sample_item (Some 1))]
   \<and> newest_first [stamp ''Feed A'' (sample_item (Some 3)), stamp ''Feed A'' (sample_item (Some 2)),
             stamp ''Feed A'' (sample_item (Some 1))]"
  using rendered_newest_first[OF shown_all_dated] shown_all_dated
  by (simp add: stamp_def sample_item_def)

lemma getFeeds_rewritten_stored_list:
  "getFeeds_rewritten (fresh_page (stored_list urls)) = Value (FreshArray urls)"
  by (simp add: getFeeds_rewritten_def getItem_def fresh_page_def stored_list_def truthy_text_def
        JSON_parse_def)

text \<open>
  Claim C5, as stated, fails for \<open>loadAllFeeds\<close> of the rewritten script: when
  every feed fails it shows its placeholder and completes, but it shows no message.
\<close>

theorem rewritten_loadAllFeeds_shows_no_message:
  "loadAllFeeds_rewritten all_unreachable
       (fresh_page (stored_list [''https://a.example/rss'', ''https://b.example/rss''])) =
     (None,
      (fresh_page (stored_list [''https://a.example/rss'', ''https://b.example/rss'']))
        \<lparr>loadingHidden := True, feedContainer := NoContent\<rparr>,
      [[Fetched, Waited 1000, Fetched, Waited 2000, Fetched],
       [Fetched, Waited 1000, Fetched, Waited 2000, Fetched]])
   \<and> messageHidden ((fresh_page (stored_list [''https://a.example/rss'', ''https://b.example/rss'']))
        \<lparr>loadingHidden := True, feedContainer := NoContent\<rparr>)"
proof -
  have f: "fetchFeedWithRetry (all_unreachable i) =
     (Thrown TypeError, [Fetched, Waited 1000, Fetched, Waited 2000, Fetched])" for i
    by (simp add: all_unreachable_def unreachable_def fetchFeedWithRetry_def
          fetchFeedWithRetry_from.simps always_def)
  show ?thesis
    by (simp add: loadAllFeeds_rewritten_def getFeeds_rewritten_stored_list elems_def
          enumerate_simps f collect_def array_sort_def renderFeed_rewritten_def Let_def)
       (simp add: fresh_page_def)
qed

text \<open>
  Claim C5, amended. In the script with the message box, when the list is not empty
  and every \<open>loadFeed\<close> returns \<open>null\<close>, \<open>loadAllFeeds\<close> completes, shows
  the placeholder for no articles and the error message about the retries.
\<close>

theorem loadAllFeeds_all_failed:
  assumes "elems st (getFeeds st) \<noteq> []"
    and "\<forall>i<length (elems st (getFeeds st)).
           \<exists>tr. loadFeed hostname (net i) (elems st (getFeeds st) ! i) = Some (None, tr)"
  shows "\<exists>st' trs. loadAllFeeds hostname net st = Some (st', trs)
       \<and> feedContainer st' = NoArticles
       \<and> messageText st' = ''Failed to load any of the requested feeds after all retries. Open Settings to verify URLs.''
       \<and> messageClass st' = Error
       \<and> \<not> messageHidden st'"
proof -
  let ?ps = "fetchPromises hostname net (elems st (getFeeds st))"
  have each: "\<exists>tr. ?ps ! i = Some (None, tr)" if "i < length ?ps" for i
    using that assms(2) by (simp add: length_fetchPromises fetchPromises_nth)
  have "?ps = map Some (map the ?ps)"
  proof (rule nth_equalityI)
    show "length ?ps = length (map Some (map the ?ps))" by simp
    fix i assume "i < length ?ps"
    with each[of i] show "?ps ! i = map Some (map the ?ps) ! i" by auto
  qed
  then have settled: "awaitAll ?ps = Some (map the ?ps)"
    using awaitAll_map_Some[of "map the ?ps"] by simp
  have "fst r = None" if "r \<in> set (map the ?ps)" for r
  proof -
    from that obtain i where "i < length ?ps" and "r = the (?ps ! i)"
      by (auto simp: in_set_conv_nth)
    with each[of i] show ?thesis by auto
  qed
  then have "List.map_filter fst (map the ?ps) = []"
    by (auto simp: map_filter_def filter_empty_conv)
  with loadAllFeeds_settled[OF assms(1) settled] show ?thesis by auto
qed

theorem loadAllFeeds_all_failed_witness:
  "\<exists>st' trs. loadAllFeeds sample_hostname all_fail
       (fresh_page (stored_list [''https://a.example/rss'', ''https://b.example/rss''])) = Some (st', trs)
     \<and> feedContainer st' = NoArticles
     \<and> messageText st' = ''Failed to load any of the requested feeds after all retries. Open Settings to verify URLs.''
     \<and> messageClass st' = Error
     \<and> \<not> messageHidden st'"
proof -
  have "\<exists>tr. loadFeed sample_hostname (all_fail i) u = Some (None, tr)" if "u \<noteq> []" for i u
    using loadFeed_all_fail[OF that three_failures_fail] by (simp add: all_fail_def)
  then have "\<forall>i<length [''https://a.example/rss'', ''https://b.example/rss''].
      \<exists>tr. loadFeed sample_hostname (all_fail i)
             ([''https://a.example/rss'', ''https://b.example/rss''] ! i) = Some (None, tr)"
    by (simp add: less_Suc_eq numeral_2_eq_2)
  with loadAllFeeds_all_failed[of
      "fresh_page (stored_list [''https://a.example/rss'', ''https://b.example/rss''])"
      sample_hostname all_fail]
  show ?thesis by simp
qed

text \<open>
  Claim C6, as stated, fails for \<open>loadAllFeeds(feedUrls)\<close> of the earlier
  script: with an empty list it shows a message of type error and returns without
  touching the container, so the cards of a previous load stay.
\<close>

theorem earlier_loadAllFeeds_keeps_cards:
  "loadAllFeeds_earlier sample_hostname all_fail [] (showing_cards, False) =
     Some ((showing_cards\<lparr>messageText := ''I need at least one valid URL, Jacob.'',
              messageClass := Error, messageHidden := False\<rparr>, False), [])
   \<and> feedContainer (showing_cards\<lparr>messageText := ''I need at least one valid URL, Jacob.'',
              messageClass := Error, messageHidden := False\<rparr>)
       = Cards [''Feed A''] [stamp ''Feed A'' (sample_item (Some 1))]"
  by (simp add: loadAllFeeds_earlier_def showMessage_def showing_cards_def)

text \<open>
  Claim C6, amended. \<open>loadAllFeeds\<close> of the script that reads the list with
  \<open>getFeeds\<close>, finding it empty, shows the warning, blanks the container and starts
  no task, so no request is made.
\<close>

theorem loadAllFeeds_empty:
  assumes "elems st (getFeeds st) = []"
  shows "loadAllFeeds hostname net st =
           Some (st\<lparr>messageText := ''No feeds configured. Open Settings to add a URL.'',
                    messageClass := Warning, messageHidden := False, feedContainer := Blank\<rparr>, [])"
  using assms by (simp add: loadAllFeeds_def showMessage_def)

theorem loadAllFeeds_empty_witness:
  "loadAllFeeds sample_hostname all_fail (fresh_page (stored_list [])) =
     Some ((fresh_page (stored_list []))
             \<lparr>messageText := ''No feeds configured. Open Settings to add a URL.'',
              messageClass := Warning, messageHidden := False, feedContainer := Blank\<rparr>, [])"
  using loadAllFeeds_empty[of "fresh_page (stored_list [])" sample_hostname all_fail] by simp

section \<open>Where the rewritten script differs\<close>

lemma getFeeds_rewritten_throws:
  "getFeeds_rewritten (fresh_page \<lparr>item = Some (Unparsable ''[not json''), read_denied = False,
      write_denied = False\<rparr>) = Thrown SyntaxError"
  by (simp add: getFeeds_rewritten_def getItem_def fresh_page_def truthy_text_def JSON_parse_def)

end
